theory Spec2Isabelle
  imports Main
begin

section \<open>Data model\<close>

text \<open>
  The note-taking service keeps three tables (users, notes, caches) behind an ORM and one
  process-wide in-memory map. Instants are seconds on a clock; \<open>0\<close> stands for Go's zero
  \<^verbatim>\<open>time.Time\<close>.
\<close>

type_synonym time = nat

text \<open>
  \<^verbatim>\<open>gorm.Model\<close>, embedded by every table struct: primary key, the two automatic
  timestamps and the soft-delete column (\<open>None\<close> is SQL NULL).
\<close>

record Model =
  ID :: nat
  CreatedAt :: time
  UpdatedAt :: time
  DeletedAt :: "time option"

text \<open>
  \<^verbatim>\<open>models.User\<close>. \<^verbatim>\<open>DateOfBirth\<close> is left at its zero value throughout and therefore
  left out: its \<^verbatim>\<open>omitempty\<close> tag then skips the rest of its rule.
\<close>

record User = Model +
  Username :: string
  Password :: string
  FirstName :: string
  LastName :: string
  Email :: string
  PhoneNumber :: string
  City :: string
  Country :: string

text \<open>
  \<^verbatim>\<open>models.Note\<close>. The struct embeds \<^verbatim>\<open>gorm.Model\<close> and declares a second field
  \<^verbatim>\<open>DeletedAt *time.Time\<close> of its own; both are named \<^verbatim>\<open>deleted_at\<close> as columns and
  the struct's own field (the shorter path) is the one bound to the column. It is called
  \<open>DeletedAt_Note\<close> here. \<open>User_assoc\<close> is the association field \<^verbatim>\<open>User User\<close>: it has no
  column, but it is part of what the validator walks.
\<close>

record Note = Model +
  UserID :: int
  User_assoc :: User
  Title :: string
  Body :: string
  DeletedAt_Note :: "time option"

text \<open>
  \<^verbatim>\<open>models.Cache\<close>: one persisted snapshot per user. \<^verbatim>\<open>Notes\<close> is the JSON text of a
  \<^verbatim>\<open>[]Note\<close>; it is kept as the list it encodes (\<^verbatim>\<open>json.Marshal\<close> of such a list does
  not fail and \<^verbatim>\<open>json.Unmarshal\<close> gives the list back).
\<close>

record Cache = Model +
  Cache_UserID :: int
  Notes :: "Note list"
  ExpiryDate :: time

record DB =
  users_tbl :: "User list"
  notes_tbl :: "Note list"
  caches_tbl :: "Cache list"

text \<open>
  The process: the package-level map \<^verbatim>\<open>notesCache\<close> and the database handle. The
  readers-writer mutex is not modelled: every handler runs to completion on its own.
\<close>

record App =
  notesCache :: "int \<rightharpoonup> Note list"
  database :: DB

text \<open>
  The process environment. \<^verbatim>\<open>auth.go\<close> reads \<^verbatim>\<open>JWT_SECRET\<close> once into the package
  variable \<^verbatim>\<open>secretKey\<close>; \<^verbatim>\<open>getUserIDFromToken\<close> reads \<^verbatim>\<open>JWT_SECRET_KEY\<close> on every
  call. An unset variable reads as the empty string.
\<close>

record Env =
  JWT_SECRET :: string
  JWT_SECRET_KEY :: string

definition secretKey :: "Env \<Rightarrow> string" where
  "secretKey env = JWT_SECRET env"

section \<open>Signed tokens\<close>

text \<open>
  A JSON claim value is a number or something else; the two claims the program uses are
  \<^verbatim>\<open>user_id\<close> and \<^verbatim>\<open>exp\<close>. Numbers are kept as integers.
\<close>

datatype claim = Num int | NotNum

record Claims =
  user_id :: "claim option"
  exp :: "claim option"

text \<open>
  The HS256 signature is kept symbolically: the key and the claims it was computed from.
  Two signatures are equal exactly when key and claims are.
\<close>

datatype signature = HS256 string Claims

text \<open>
  A token string is a well-formed compact token (claims and signature) or any other text.
\<close>

datatype token_string = Compact Claims signature | Garbled

text \<open>
  The \<^verbatim>\<open>Authorization\<close> header as \<^verbatim>\<open>c.Get\<close> returns it: empty, or a token string
  with or without the prefix \<^verbatim>\<open>"Bearer "\<close>.
\<close>

datatype header = Empty | Prefixed token_string | Bare token_string

definition TrimPrefix_Bearer :: "header \<Rightarrow> token_string" where
  "TrimPrefix_Bearer h = (case h of Prefixed t \<Rightarrow> t | Bare t \<Rightarrow> t | Empty \<Rightarrow> Garbled)"

text \<open>
  \<^verbatim>\<open>jwt.MapClaims.Valid\<close>, the expiry part: an absent or zero \<^verbatim>\<open>exp\<close> passes, a numeric
  one passes while the clock is before it, any other value fails.
\<close>

definition verifyExp :: "time \<Rightarrow> Claims \<Rightarrow> bool" where
  "verifyExp now c =
     (case exp c of
        None \<Rightarrow> True
      | Some (Num e) \<Rightarrow> (if e = 0 then True else int now < e)
      | Some NotNum \<Rightarrow> False)"

text \<open>
  \<^verbatim>\<open>jwt.Parse\<close> with a key function that returns \<open>key\<close>: the claims of a token that is
  well formed, signed with \<open>key\<close> over these very claims, and not expired.
\<close>

definition jwt_Parse :: "string \<Rightarrow> time \<Rightarrow> token_string \<Rightarrow> Claims option" where
  "jwt_Parse key now t =
     (case t of
        Garbled \<Rightarrow> None
      | Compact c s \<Rightarrow> (if s = HS256 key c \<and> verifyExp now c then Some c else None))"

text \<open>\<^verbatim>\<open>generateToken\<close>: claims \<^verbatim>\<open>user_id\<close> and \<^verbatim>\<open>exp\<close> = now + 24h, signed with \<^verbatim>\<open>secretKey\<close>.\<close>

definition generateToken :: "Env \<Rightarrow> time \<Rightarrow> User \<Rightarrow> token_string" where
  "generateToken env now user =
     (let claims = \<lparr> user_id = Some (Num (int (ID user))),
                     exp = Some (Num (int (now + 24 * 3600))) \<rparr>
      in Compact claims (HS256 (secretKey env) claims))"

datatype auth_error = HeaderMissing | InvalidToken | InvalidClaims | UserIDNotFound

text \<open>
  \<^verbatim>\<open>getUserIDFromToken\<close>. The type assertion to \<^verbatim>\<open>jwt.MapClaims\<close> always succeeds for
  \<^verbatim>\<open>jwt.Parse\<close>, so \<open>InvalidClaims\<close> is never produced.
\<close>

definition getUserIDFromToken :: "Env \<Rightarrow> time \<Rightarrow> header \<Rightarrow> auth_error + int" where
  "getUserIDFromToken env now h =
     (if h = Empty then Inl HeaderMissing
      else case jwt_Parse (JWT_SECRET_KEY env) now (TrimPrefix_Bearer h) of
             None \<Rightarrow> Inl InvalidToken
           | Some claims \<Rightarrow>
               (case user_id claims of
                  Some (Num uid) \<Rightarrow> Inr uid
                | _ \<Rightarrow> Inl UserIDNotFound))"

section \<open>Requests, responses, library oracles\<close>

text \<open>
  What the handlers read of a request: the \<^verbatim>\<open>Authorization\<close> header, the path parameter
  \<^verbatim>\<open>id\<close>, and the outcome of \<^verbatim>\<open>c.BodyParser\<close> into the handler's struct (\<open>None\<close> when
  it returns an error). The JSON decoding itself is outside the model.
\<close>

record 'b Request =
  Authorization :: header
  Params_id :: string
  BodyParser :: "'b option"

text \<open>
  A response is a status and a payload: a plain string (\<^verbatim>\<open>SendString\<close>), the text of
  an error of \<^verbatim>\<open>getUserIDFromToken\<close>, the JSON object \<^verbatim>\<open>{"error": s}\<close>, the same
  object with the validator's own message after \<^verbatim>\<open>"Validation failed: "\<close>, the map from
  field to failed tag that \<^verbatim>\<open>Register\<close> builds, or a token, notes, a note or a user as
  JSON.
\<close>

datatype payload =
    SendString string
  | SendError auth_error
  | JSON_error string
  | JSON_error_Validation_failed
  | JSON_ValidationErrors
  | JSON_token token_string
  | JSON_notes "Note list"
  | JSON_note Note
  | JSON_user User
  | NoBody

type_synonym Response = "nat \<times> payload"

text \<open>
  The parts of \<^verbatim>\<open>validator\<close> and \<^verbatim>\<open>bcrypt\<close> whose definition is not in the repository:
  the \<^verbatim>\<open>email\<close> rule, \<^verbatim>\<open>bcrypt.GenerateFromPassword\<close> (\<open>None\<close> is its error) and
  \<^verbatim>\<open>bcrypt.CompareHashAndPassword\<close> (\<open>True\<close> is a nil error).
\<close>

record Lib =
  isEmail :: "string \<Rightarrow> bool"
  GenerateFromPassword :: "string \<Rightarrow> string option"
  CompareHashAndPassword :: "string \<Rightarrow> string \<Rightarrow> bool"

text \<open>
  \<^verbatim>\<open>strconv.ParseUint(s, 10, 32)\<close>: a non-empty string of decimal digits whose value
  fits 32 bits.
\<close>

definition digit_of :: "char \<Rightarrow> nat option" where
  "digit_of c =
     (if 48 \<le> (of_char c :: nat) \<and> (of_char c :: nat) \<le> 57 then Some (of_char c - 48) else None)"

fun parse_digits :: "nat \<Rightarrow> string \<Rightarrow> nat option" where
  "parse_digits acc [] = Some acc"
| "parse_digits acc (c # cs) =
     (case digit_of c of None \<Rightarrow> None | Some d \<Rightarrow> parse_digits (10 * acc + d) cs)"

definition ParseUint32 :: "string \<Rightarrow> nat option" where
  "ParseUint32 s =
     (if s = [] then None
      else case parse_digits 0 s of
             None \<Rightarrow> None
           | Some v \<Rightarrow> (if v < 2 ^ 32 then Some v else None))"

section \<open>Struct validation\<close>

text \<open>
  \<^verbatim>\<open>validate.Struct\<close> follows the \<^verbatim>\<open>validate\<close> tags and walks nested structs.
  \<^verbatim>\<open>required\<close> rejects the zero value; \<^verbatim>\<open>min\<close> and \<^verbatim>\<open>max\<close> bound the length of a
  string (its characters, which are bytes here); fields tagged \<^verbatim>\<open>omitempty\<close> only, or
  not tagged, always pass. A \<^verbatim>\<open>Note\<close> has the nested \<^verbatim>\<open>User\<close> struct as a field, so
  its rules apply to every note body as well.
\<close>

definition validate_User :: "Lib \<Rightarrow> User \<Rightarrow> bool" where
  "validate_User lib u =
     (Username u \<noteq> [] \<and> 3 \<le> length (Username u) \<and> length (Username u) \<le> 32
      \<and> Password u \<noteq> [] \<and> 8 \<le> length (Password u)
      \<and> FirstName u \<noteq> []
      \<and> LastName u \<noteq> []
      \<and> Email u \<noteq> [] \<and> isEmail lib (Email u))"

definition validate_Note :: "Lib \<Rightarrow> Note \<Rightarrow> bool" where
  "validate_Note lib n =
     (UserID n \<noteq> 0 \<and> validate_User lib (User_assoc n) \<and> Title n \<noteq> [] \<and> Body n \<noteq> [])"

section \<open>The ORM\<close>

datatype gorm_error = ErrRecordNotFound | ErrMissingWhereClause | ErrConstraint

text \<open>
  A model that has a \<^verbatim>\<open>gorm.DeletedAt\<close> field is soft-deleted: the ORM adds
  \<^verbatim>\<open>deleted_at IS NULL\<close> to every query, update and delete of that model, whatever
  the \<^verbatim>\<open>Where\<close> string says (the repository's README counts on it: "ORM has the
  ability to filter items ... without having to do it manually"). All three structs embed
  \<^verbatim>\<open>gorm.Model\<close>, which has such a field. \<^verbatim>\<open>Note\<close> shadows it with a pointer field of
  the same column name: the embedded field still registers the scope, and the column it
  names is the one the struct's own field reads and writes. These are the rows a statement
  on each model sees.
\<close>

definition query_users :: "DB \<Rightarrow> User list" where
  "query_users db = filter (\<lambda>u. DeletedAt u = None) (users_tbl db)"

definition query_notes :: "DB \<Rightarrow> Note list" where
  "query_notes db = filter (\<lambda>n. DeletedAt_Note n = None) (notes_tbl db)"

definition query_caches :: "DB \<Rightarrow> Cache list" where
  "query_caches db = filter (\<lambda>c. DeletedAt c = None) (caches_tbl db)"

text \<open>\<^verbatim>\<open>First\<close>: the matching row with the least primary key, or \<^verbatim>\<open>ErrRecordNotFound\<close>.\<close>

fun first_by_id :: "'a Model_scheme list \<Rightarrow> 'a Model_scheme option" where
  "first_by_id [] = None"
| "first_by_id (r # rs) =
     (case first_by_id rs of
        None \<Rightarrow> Some r
      | Some r' \<Rightarrow> (if ID r \<le> ID r' then Some r else Some r'))"

definition First :: "('a Model_scheme \<Rightarrow> bool) \<Rightarrow> 'a Model_scheme list \<Rightarrow> gorm_error + 'a Model_scheme" where
  "First cond rows =
     (case first_by_id (filter cond rows) of None \<Rightarrow> Inl ErrRecordNotFound | Some r \<Rightarrow> Inr r)"

text \<open>\<^verbatim>\<open>Find\<close>: all matching rows; no row is not an error.\<close>

definition Find :: "('r \<Rightarrow> bool) \<Rightarrow> 'r list \<Rightarrow> gorm_error + 'r list" where
  "Find cond rows = Inr (filter cond rows)"

text \<open>
  What a struct leaves in its table. For a note: its columns, that is without the
  association and with the embedded \<^verbatim>\<open>gorm.DeletedAt\<close>, which is bound to no column, at
  its zero value. Writing a note whose association is not zero also makes the ORM save
  that user; this is left out, the model of a write keeps to the notes table.
\<close>

definition zero_User :: User where
  "zero_User = \<lparr> ID = 0, CreatedAt = 0, UpdatedAt = 0, DeletedAt = None,
                 Username = [], Password = [], FirstName = [], LastName = [], Email = [],
                 PhoneNumber = [], City = [], Country = [] \<rparr>"

definition row_of_Note :: "Note \<Rightarrow> Note" where
  "row_of_Note n = n\<lparr> DeletedAt := None, User_assoc := zero_User \<rparr>"

text \<open>
  \<^verbatim>\<open>Create\<close>: a zero primary key is assigned by the table, a given one must be new;
  \<^verbatim>\<open>CreatedAt\<close> and \<^verbatim>\<open>UpdatedAt\<close> are set to the clock where they are zero. The result
  is the struct as the caller sees it afterwards.
\<close>

definition next_id :: "'a Model_scheme list \<Rightarrow> nat" where
  "next_id rows = Suc (fold max (map ID rows) 0)"

definition stamp_create :: "time \<Rightarrow> 'a Model_scheme list \<Rightarrow> 'a Model_scheme \<Rightarrow> 'a Model_scheme" where
  "stamp_create now rows r =
     r\<lparr> ID := (if ID r = 0 then next_id rows else ID r),
        CreatedAt := (if CreatedAt r = 0 then now else CreatedAt r),
        UpdatedAt := (if UpdatedAt r = 0 then now else UpdatedAt r) \<rparr>"

definition Create_Note :: "time \<Rightarrow> Note \<Rightarrow> DB \<Rightarrow> gorm_error + Note \<times> DB" where
  "Create_Note now n db =
     (if ID n \<noteq> 0 \<and> ID n \<in> set (map ID (notes_tbl db)) then Inl ErrConstraint
      else let n' = stamp_create now (notes_tbl db) n
           in Inr (n', db\<lparr> notes_tbl := notes_tbl db @ [row_of_Note n'] \<rparr>))"

definition Create_Cache :: "time \<Rightarrow> Cache \<Rightarrow> DB \<Rightarrow> gorm_error + Cache \<times> DB" where
  "Create_Cache now c db =
     (if ID c \<noteq> 0 \<and> ID c \<in> set (map ID (caches_tbl db)) then Inl ErrConstraint
      else let c' = stamp_create now (caches_tbl db) c
           in Inr (c', db\<lparr> caches_tbl := caches_tbl db @ [c'] \<rparr>))"

text \<open>
  The users table also carries the two \<^verbatim>\<open>unique\<close> indexes of the struct's tags, on
  \<^verbatim>\<open>username\<close> and on \<^verbatim>\<open>email\<close>; an index covers soft-deleted rows as well.
\<close>

definition Create_User :: "time \<Rightarrow> User \<Rightarrow> DB \<Rightarrow> gorm_error + User \<times> DB" where
  "Create_User now u db =
     (if (ID u \<noteq> 0 \<and> ID u \<in> set (map ID (users_tbl db)))
         \<or> Username u \<in> set (map Username (users_tbl db))
         \<or> Email u \<in> set (map Email (users_tbl db))
      then Inl ErrConstraint
      else let u' = stamp_create now (users_tbl db) u
           in Inr (u', db\<lparr> users_tbl := users_tbl db @ [u'] \<rparr>))"

text \<open>
  \<^verbatim>\<open>Save\<close> of a struct with a non-zero primary key writes every column from the struct,
  \<^verbatim>\<open>updated_at\<close> from the clock, into the row with that key that the soft-delete scope
  lets through. When no row is affected it falls back to an insert that overwrites on a
  key conflict. \<open>deleted\<close> reads the soft-delete column.
\<close>

definition save_rows ::
  "('r \<Rightarrow> nat) \<Rightarrow> ('r \<Rightarrow> time option) \<Rightarrow> 'r \<Rightarrow> 'r list \<Rightarrow> 'r list" where
  "save_rows key deleted r rows =
     (if list_ex (\<lambda>x. key x = key r \<and> deleted x = None) rows
      then map (\<lambda>x. if key x = key r \<and> deleted x = None then r else x) rows
      else if list_ex (\<lambda>x. key x = key r) rows
      then map (\<lambda>x. if key x = key r then r else x) rows
      else rows @ [r])"

definition Save_Note :: "time \<Rightarrow> Note \<Rightarrow> DB \<Rightarrow> gorm_error + Note \<times> DB" where
  "Save_Note now n db =
     (if ID n = 0 then Create_Note now n db
      else let n' = n\<lparr> UpdatedAt := now \<rparr>
           in Inr (n', db\<lparr> notes_tbl := save_rows ID DeletedAt_Note (row_of_Note n') (notes_tbl db) \<rparr>))"

definition Save_Cache :: "time \<Rightarrow> Cache \<Rightarrow> DB \<Rightarrow> gorm_error + Cache \<times> DB" where
  "Save_Cache now c db =
     (if ID c = 0 then Create_Cache now c db
      else let c' = c\<lparr> UpdatedAt := now \<rparr>
           in Inr (c', db\<lparr> caches_tbl := save_rows ID DeletedAt c' (caches_tbl db) \<rparr>))"

text \<open>
  \<^verbatim>\<open>Delete\<close> of a soft-deleted model stamps \<^verbatim>\<open>deleted_at\<close> on the rows selected by the
  primary key of the value, when it is not zero, and by the \<^verbatim>\<open>Where\<close> conditions of the
  statement (\<open>None\<close>: the statement has none). With neither, the ORM refuses the statement
  with \<^verbatim>\<open>ErrMissingWhereClause\<close> and runs nothing, unless \<^verbatim>\<open>AllowGlobalUpdate\<close> is set;
  the handle is opened with \<^verbatim>\<open>&gorm.Config{}\<close>, which leaves it unset.
\<close>

definition Delete_Cache ::
  "time \<Rightarrow> Cache \<Rightarrow> (Cache \<Rightarrow> bool) option \<Rightarrow> DB \<Rightarrow> gorm_error + DB" where
  "Delete_Cache now v conds db =
     (if ID v = 0 \<and> conds = None then Inl ErrMissingWhereClause
      else Inr (db\<lparr> caches_tbl :=
             map (\<lambda>c. if DeletedAt c = None \<and> (ID v = 0 \<or> ID c = ID v)
                          \<and> (case conds of None \<Rightarrow> True | Some p \<Rightarrow> p c)
                       then c\<lparr> DeletedAt := Some now \<rparr> else c)
                 (caches_tbl db) \<rparr>))"

section \<open>The cache layer (\<^verbatim>\<open>cache.go\<close>)\<close>

definition zero_Cache :: Cache where
  "zero_Cache = \<lparr> ID = 0, CreatedAt = 0, UpdatedAt = 0, DeletedAt = None,
                  Cache_UserID = 0, Notes = [], ExpiryDate = 0 \<rparr>"

text \<open>
  \<^verbatim>\<open>SaveNotes\<close>: store in the map, then, in one transaction, update the user's cache row
  or create it, with an expiry 24 hours ahead. The result is the returned error, if any.
\<close>

definition SaveNotes :: "time \<Rightarrow> int \<Rightarrow> Note list \<Rightarrow> App \<Rightarrow> gorm_error option \<times> App" where
  "SaveNotes now userID ns app =
     (let app1 = app\<lparr> notesCache := (notesCache app)(userID \<mapsto> ns) \<rparr>;
          db = database app1
      in case First (\<lambda>c. Cache_UserID c = userID) (query_caches db) of
           Inr cache \<Rightarrow>
             (case Save_Cache now (cache\<lparr> Notes := ns, ExpiryDate := now + 24 * 3600 \<rparr>) db of
                Inl e \<Rightarrow> (Some e, app1)
              | Inr (_, db') \<Rightarrow> (None, app1\<lparr> database := db' \<rparr>))
         | Inl ErrRecordNotFound \<Rightarrow>
             (case Create_Cache now
                     (zero_Cache\<lparr> Cache_UserID := userID, Notes := ns,
                                  ExpiryDate := now + 24 * 3600 \<rparr>) db of
                Inl e \<Rightarrow> (Some e, app1)
              | Inr (_, db') \<Rightarrow> (None, app1\<lparr> database := db' \<rparr>))
         | Inl e \<Rightarrow> (Some e, app1))"

text \<open>
  \<^verbatim>\<open>LoadNotes\<close>: the map first, then the user's cache row, whose notes are put into the
  map. The function takes no clock and reads no field of the row but \<^verbatim>\<open>Notes\<close>.
\<close>

definition LoadNotes :: "int \<Rightarrow> App \<Rightarrow> (gorm_error + Note list) \<times> App" where
  "LoadNotes userID app =
     (case notesCache app userID of
        Some ns \<Rightarrow> (Inr ns, app)
      | None \<Rightarrow>
          (case First (\<lambda>c. Cache_UserID c = userID) (query_caches (database app)) of
             Inl e \<Rightarrow> (Inl e, app)
           | Inr cache \<Rightarrow>
               (Inr (Notes cache), app\<lparr> notesCache := (notesCache app)(userID \<mapsto> Notes cache) \<rparr>)))"

text \<open>
  \<^verbatim>\<open>ClearNotesCache\<close>: a fresh map, then \<^verbatim>\<open>db.Delete(&Cache{})\<close>, a delete with a zero
  value and no condition.
\<close>

definition ClearNotesCache :: "time \<Rightarrow> App \<Rightarrow> gorm_error option \<times> App" where
  "ClearNotesCache now app =
     (let app1 = app\<lparr> notesCache := Map.empty \<rparr>
      in case Delete_Cache now zero_Cache None (database app1) of
           Inl e \<Rightarrow> (Some e, app1)
         | Inr db' \<Rightarrow> (None, app1\<lparr> database := db' \<rparr>))"

section \<open>Note handlers (\<^verbatim>\<open>notes.go\<close>)\<close>

definition fetchUserNotes :: "DB \<Rightarrow> int \<Rightarrow> gorm_error + Note list" where
  "fetchUserNotes db userID =
     Find (\<lambda>n. UserID n = userID \<and> DeletedAt_Note n = None) (query_notes db)"

definition getNotes :: "Env \<Rightarrow> time \<Rightarrow> 'b Request \<Rightarrow> App \<Rightarrow> Response \<times> App" where
  "getNotes env now req app =
     (case getUserIDFromToken env now (Authorization req) of
        Inl e \<Rightarrow> ((401, SendError e), app)
      | Inr userID \<Rightarrow>
          (case LoadNotes userID app of
             (loaded, app1) \<Rightarrow>
               (if (case loaded of Inl _ \<Rightarrow> True | Inr ns \<Rightarrow> length ns = 0)
                then (case fetchUserNotes (database app1) userID of
                        Inl _ \<Rightarrow> ((500, SendString ''Database error''), app1)
                      | Inr ns \<Rightarrow> ((200, JSON_notes ns), snd (SaveNotes now userID ns app1)))
                else ((200, JSON_notes (case loaded of Inr ns \<Rightarrow> ns | Inl _ \<Rightarrow> [])), app1))))"

definition createNote :: "Env \<Rightarrow> Lib \<Rightarrow> time \<Rightarrow> Note Request \<Rightarrow> App \<Rightarrow> Response \<times> App" where
  "createNote env lib now req app =
     (case BodyParser req of
        None \<Rightarrow> ((400, SendString ''Invalid input''), app)
      | Some note \<Rightarrow>
          (if \<not> validate_Note lib note then ((400, SendString ''Validation failed''), app)
           else case getUserIDFromToken env now (Authorization req) of
                  Inl e \<Rightarrow> ((401, SendError e), app)
                | Inr userID \<Rightarrow>
                    (case Create_Note now (note\<lparr> UserID := userID \<rparr>) (database app) of
                       Inl _ \<Rightarrow> ((500, SendString ''Unable to create note''), app)
                     | Inr (note', db') \<Rightarrow>
                         ((201, JSON_note note'),
                          snd (ClearNotesCache now (app\<lparr> database := db' \<rparr>))))))"

definition updateNote :: "Env \<Rightarrow> Lib \<Rightarrow> time \<Rightarrow> Note Request \<Rightarrow> App \<Rightarrow> Response \<times> App" where
  "updateNote env lib now req app =
     (case ParseUint32 (Params_id req) of
        None \<Rightarrow> ((400, SendString ''Invalid note ID''), app)
      | Some noteID \<Rightarrow>
          (case BodyParser req of
             None \<Rightarrow> ((400, SendString ''Invalid input''), app)
           | Some note \<Rightarrow>
               (if \<not> validate_Note lib note then ((400, SendString ''Validation failed''), app)
                else case getUserIDFromToken env now (Authorization req) of
                       Inl e \<Rightarrow> ((401, SendError e), app)
                     | Inr userID \<Rightarrow>
                         (case First (\<lambda>n. ID n = noteID \<and> UserID n = userID)
                                 (query_notes (database app)) of
                            Inl ErrRecordNotFound \<Rightarrow> ((404, SendString ''Note not found''), app)
                          | Inl _ \<Rightarrow> ((500, SendString ''Database error''), app)
                          | Inr existingNote \<Rightarrow>
                              (case Save_Note now (note\<lparr> ID := noteID, UserID := userID \<rparr>)
                                      (database app) of
                                 Inl _ \<Rightarrow> ((500, SendString ''Unable to update note''), app)
                               | Inr (note', db') \<Rightarrow>
                                   ((200, JSON_note note'),
                                    snd (ClearNotesCache now (app\<lparr> database := db' \<rparr>))))))))"

definition deleteNote :: "Env \<Rightarrow> time \<Rightarrow> 'b Request \<Rightarrow> App \<Rightarrow> Response \<times> App" where
  "deleteNote env now req app =
     (case ParseUint32 (Params_id req) of
        None \<Rightarrow> ((400, SendString ''Invalid note ID''), app)
      | Some noteID \<Rightarrow>
          (case getUserIDFromToken env now (Authorization req) of
             Inl e \<Rightarrow> ((401, SendError e), app)
           | Inr userID \<Rightarrow>
               (case First (\<lambda>n. ID n = noteID \<and> UserID n = userID)
                       (query_notes (database app)) of
                  Inl ErrRecordNotFound \<Rightarrow> ((404, SendString ''Note not found''), app)
                | Inl _ \<Rightarrow> ((500, SendString ''Database error''), app)
                | Inr existingNote \<Rightarrow>
                    (case Save_Note now (existingNote\<lparr> DeletedAt_Note := Some now \<rparr>)
                            (database app) of
                       Inl _ \<Rightarrow> ((500, SendString ''Unable to delete note''), app)
                     | Inr (_, db') \<Rightarrow>
                         ((204, NoBody),
                          snd (ClearNotesCache now (app\<lparr> database := db' \<rparr>)))))))"

section \<open>Account handlers (\<^verbatim>\<open>auth.go\<close>)\<close>

definition hashPassword :: "Lib \<Rightarrow> string \<Rightarrow> string option" where
  "hashPassword lib password = GenerateFromPassword lib password"

definition Register :: "Lib \<Rightarrow> time \<Rightarrow> User Request \<Rightarrow> App \<Rightarrow> Response \<times> App" where
  "Register lib now req app =
     (case BodyParser req of
        None \<Rightarrow> ((400, SendString ''Invalid input''), app)
      | Some user \<Rightarrow>
          (if \<not> validate_User lib user then ((400, JSON_ValidationErrors), app)
           else case First (\<lambda>u. Username u = Username user) (query_users (database app)) of
                  Inr existingUser \<Rightarrow> ((400, SendString ''Username already exists''), app)
                | Inl ErrRecordNotFound \<Rightarrow>
                    (case hashPassword lib (Password user) of
                       None \<Rightarrow> ((500, SendString ''Error while hashing password''), app)
                     | Some hashedPassword \<Rightarrow>
                         (case Create_User now (user\<lparr> Password := hashedPassword \<rparr>)
                                 (database app) of
                            Inl _ \<Rightarrow> ((500, SendString ''Unable to register user''), app)
                          | Inr (user', db') \<Rightarrow>
                              ((201, JSON_user user'), app\<lparr> database := db' \<rparr>)))
                | Inl _ \<Rightarrow> ((500, SendString ''Database error''), app)))"

definition Login :: "Env \<Rightarrow> Lib \<Rightarrow> time \<Rightarrow> User Request \<Rightarrow> App \<Rightarrow> Response \<times> App" where
  "Login env lib now req app =
     (case BodyParser req of
        None \<Rightarrow> ((400, JSON_error ''Invalid input''), app)
      | Some loginData \<Rightarrow>
          (case First (\<lambda>u. Username u = Username loginData) (query_users (database app)) of
             Inl ErrRecordNotFound \<Rightarrow> ((401, JSON_error ''Invalid username or password''), app)
           | Inl _ \<Rightarrow> ((500, JSON_error ''Error retrieving user data''), app)
           | Inr user \<Rightarrow>
               (if \<not> CompareHashAndPassword lib (Password user) (Password loginData)
                then ((401, JSON_error ''Invalid username or password''), app)
                else ((200, JSON_token (generateToken env now user)), app))))"

section \<open>Middleware and routes (\<^verbatim>\<open>main.go\<close>)\<close>

datatype 'a middleware = Respond Response | Next 'a | Panic

text \<open>
  \<^verbatim>\<open>AuthMiddleware\<close>, mounted on \<^verbatim>\<open>/me\<close> only. It parses the header as it is (a
  \<^verbatim>\<open>Bearer\<close> prefix makes the text no token), verifies with \<^verbatim>\<open>secretKey\<close>, and its
  unchecked type assertion on \<^verbatim>\<open>user_id\<close> panics on a claim that is not a number. It
  then looks the user up by primary key and hands the user on.
\<close>

definition AuthMiddleware :: "Env \<Rightarrow> time \<Rightarrow> 'b Request \<Rightarrow> App \<Rightarrow> User middleware" where
  "AuthMiddleware env now req app =
     (case Authorization req of
        Empty \<Rightarrow> Respond (401, JSON_error ''Authorization token required'')
      | Prefixed _ \<Rightarrow> Respond (401, JSON_error ''Invalid token'')
      | Bare t \<Rightarrow>
          (case jwt_Parse (secretKey env) now t of
             None \<Rightarrow> Respond (401, JSON_error ''Invalid token'')
           | Some claims \<Rightarrow>
               (case user_id claims of
                  Some (Num uid) \<Rightarrow>
                    (case First (\<lambda>u. int (ID u) = uid) (query_users (database app)) of
                       Inl _ \<Rightarrow> Respond (401, JSON_error ''User not found'')
                     | Inr user \<Rightarrow> Next user)
                | _ \<Rightarrow> Panic)))"

text \<open>
  The three body validators, which \<^verbatim>\<open>main.go\<close> mounts with \<^verbatim>\<open>app.Use\<close> in front of
  \<^verbatim>\<open>/register\<close>, \<^verbatim>\<open>/login\<close> and everything under \<^verbatim>\<open>/notes\<close>, for every method.
  \<^verbatim>\<open>ValidateLogin\<close> parses into a struct of its own with two required fields.
\<close>

definition ValidateUser :: "Lib \<Rightarrow> User Request \<Rightarrow> unit middleware" where
  "ValidateUser lib req =
     (case BodyParser req of
        None \<Rightarrow> Respond (400, JSON_error ''Invalid input'')
      | Some user \<Rightarrow>
          (if \<not> validate_User lib user then Respond (400, JSON_error_Validation_failed)
           else Next ()))"

definition ValidateLogin :: "User Request \<Rightarrow> unit middleware" where
  "ValidateLogin req =
     (case BodyParser req of
        None \<Rightarrow> Respond (400, JSON_error ''Invalid input'')
      | Some loginData \<Rightarrow>
          (if Username loginData = [] \<or> Password loginData = []
           then Respond (400, JSON_error_Validation_failed)
           else Next ()))"

definition ValidateNote :: "Lib \<Rightarrow> Note Request \<Rightarrow> unit middleware" where
  "ValidateNote lib req =
     (case BodyParser req of
        None \<Rightarrow> Respond (400, JSON_error ''Invalid input'')
      | Some note \<Rightarrow>
          (if \<not> validate_Note lib note then Respond (400, JSON_error_Validation_failed)
           else Next ()))"

text \<open>\<^verbatim>\<open>NotesHandler\<close> switches on the method; the routes put the validators in front.\<close>

definition NotesHandler ::
  "Env \<Rightarrow> Lib \<Rightarrow> time \<Rightarrow> string \<Rightarrow> Note Request \<Rightarrow> App \<Rightarrow> Response \<times> App" where
  "NotesHandler env lib now method req app =
     (if method = ''GET'' then getNotes env now req app
      else if method = ''POST'' then createNote env lib now req app
      else if method = ''PUT'' then updateNote env lib now req app
      else if method = ''DELETE'' then deleteNote env now req app
      else ((405, SendString ''Method not allowed''), app))"

definition notes_route ::
  "Env \<Rightarrow> Lib \<Rightarrow> time \<Rightarrow> string \<Rightarrow> Note Request \<Rightarrow> App \<Rightarrow> Response \<times> App" where
  "notes_route env lib now method req app =
     (case ValidateNote lib req of
        Respond r \<Rightarrow> (r, app)
      | _ \<Rightarrow> NotesHandler env lib now method req app)"

definition register_route :: "Lib \<Rightarrow> time \<Rightarrow> User Request \<Rightarrow> App \<Rightarrow> Response \<times> App" where
  "register_route lib now req app =
     (case ValidateUser lib req of
        Respond r \<Rightarrow> (r, app)
      | _ \<Rightarrow> Register lib now req app)"

definition login_route :: "Env \<Rightarrow> Lib \<Rightarrow> time \<Rightarrow> User Request \<Rightarrow> App \<Rightarrow> Response \<times> App" where
  "login_route env lib now req app =
     (case ValidateLogin req of
        Respond r \<Rightarrow> (r, app)
      | _ \<Rightarrow> Login env lib now req app)"

section \<open>Concrete configurations and states\<close>

text \<open>
  The deployment of the repository (\<^verbatim>\<open>docker-compose.yml\<close>) sets \<^verbatim>\<open>JWT_SECRET\<close> and
  leaves \<^verbatim>\<open>JWT_SECRET_KEY\<close> unset. \<open>env1\<close> is a configuration that gives both variables
  the same value, so that tokens issued at login are accepted by the note handlers.
\<close>

definition compose_env :: Env where
  "compose_env = \<lparr> JWT_SECRET = ''mytestcode'', JWT_SECRET_KEY = '''' \<rparr>"

definition env1 :: Env where
  "env1 = \<lparr> JWT_SECRET = ''k'', JWT_SECRET_KEY = ''k'' \<rparr>"

text \<open>
  Library oracles for the concrete runs: an email rule that accepts \<^verbatim>\<open>a@x.com\<close>, and a
  hash that can be compared.
\<close>

definition lib1 :: Lib where
  "lib1 = \<lparr> isEmail = (\<lambda>s. CHR ''@'' \<in> set s),
             GenerateFromPassword = (\<lambda>p. Some (''$2a$'' @ p)),
             CompareHashAndPassword = (\<lambda>h p. h = ''$2a$'' @ p) \<rparr>"

definition alice :: User where
  "alice = \<lparr> ID = 1, CreatedAt = 10, UpdatedAt = 10, DeletedAt = None,
             Username = ''alice'', Password = ''$2a$password123'', FirstName = ''A'',
             LastName = ''L'', Email = ''a@x.com'', PhoneNumber = '''', City = '''',
             Country = '''' \<rparr>"

definition bob :: User where
  "bob = \<lparr> ID = 2, CreatedAt = 11, UpdatedAt = 11, DeletedAt = None,
           Username = ''bob'', Password = ''$2a$password456'', FirstName = ''B'',
           LastName = ''O'', Email = ''b@x.com'', PhoneNumber = '''', City = '''',
           Country = '''' \<rparr>"

text \<open>Alice's note, as the row the table holds, and a database with this one note.\<close>

definition note1 :: Note where
  "note1 = \<lparr> ID = 1, CreatedAt = 20, UpdatedAt = 20, DeletedAt = None,
             UserID = 1, User_assoc = zero_User, Title = ''T'', Body = ''B'',
             DeletedAt_Note = None \<rparr>"

definition db1 :: DB where
  "db1 = \<lparr> users_tbl = [alice, bob], notes_tbl = [note1], caches_tbl = [] \<rparr>"

definition app1 :: App where
  "app1 = \<lparr> notesCache = Map.empty, database = db1 \<rparr>"

text \<open>
  Request bodies. \<open>readme_body\<close> is the body of the README's \<^verbatim>\<open>POST /notes\<close> example,
  \<^verbatim>\<open>{"title": "New Note", "body": "Note content"}\<close>. \<open>valid_body\<close> carries what the
  validator insists on (an owner id and a user with the required fields) besides a title
  and a body.
\<close>

definition readme_body :: Note where
  "readme_body = \<lparr> ID = 0, CreatedAt = 0, UpdatedAt = 0, DeletedAt = None,
                   UserID = 0, User_assoc = zero_User, Title = ''New Note'',
                   Body = ''Note content'', DeletedAt_Note = None \<rparr>"

definition alice_form :: User where
  "alice_form = \<lparr> ID = 0, CreatedAt = 0, UpdatedAt = 0, DeletedAt = None,
                  Username = ''alice'', Password = ''password123'', FirstName = ''A'',
                  LastName = ''L'', Email = ''a@x.com'', PhoneNumber = '''', City = '''',
                  Country = '''' \<rparr>"

definition valid_body :: Note where
  "valid_body = \<lparr> ID = 0, CreatedAt = 0, UpdatedAt = 0, DeletedAt = None,
                  UserID = 1, User_assoc = alice_form, Title = ''Updated Title'',
                  Body = ''Updated body'', DeletedAt_Note = None \<rparr>"

text \<open>
  Requests that carry the token issued to Alice, or to Bob, at time 50 under \<open>env1\<close>.
  All of them carry \<open>valid_body\<close>, so that they get past \<^verbatim>\<open>ValidateNote\<close> on their
  route, except \<open>create_req\<close>, which carries the README's body.
\<close>

definition alice_header :: header where
  "alice_header = Prefixed (generateToken env1 50 alice)"

definition bob_header :: header where
  "bob_header = Prefixed (generateToken env1 50 bob)"

definition list_req :: "Note Request" where
  "list_req = \<lparr> Authorization = alice_header, Params_id = [], BodyParser = Some valid_body \<rparr>"

definition create_req :: "Note Request" where
  "create_req = \<lparr> Authorization = alice_header, Params_id = [], BodyParser = Some readme_body \<rparr>"

definition update_req :: "Note Request" where
  "update_req = \<lparr> Authorization = alice_header, Params_id = ''1'', BodyParser = Some valid_body \<rparr>"

definition delete_req :: "Note Request" where
  "delete_req = \<lparr> Authorization = alice_header, Params_id = ''1'', BodyParser = Some valid_body \<rparr>"

definition bob_list_req :: "Note Request" where
  "bob_list_req = \<lparr> Authorization = bob_header, Params_id = [], BodyParser = Some valid_body \<rparr>"

definition bob_update_req :: "Note Request" where
  "bob_update_req = \<lparr> Authorization = bob_header, Params_id = ''1'', BodyParser = Some valid_body \<rparr>"

definition bob_delete_req :: "Note Request" where
  "bob_delete_req = \<lparr> Authorization = bob_header, Params_id = ''1'', BodyParser = Some valid_body \<rparr>"

text \<open>
  The states of one run: Alice lists her notes at time 100 (\<open>app2\<close>: both cache tiers
  now hold her list), then deletes note 1 at time 200 (\<open>app3\<close>).
\<close>

definition cache1 :: Cache where
  "cache1 = \<lparr> ID = 1, CreatedAt = 100, UpdatedAt = 100, DeletedAt = None,
              Cache_UserID = 1, Notes = [note1], ExpiryDate = 86500 \<rparr>"


definition app3 :: App where
  "app3 = \<lparr> notesCache = Map.empty,
            database = db1\<lparr> notes_tbl := [note1\<lparr> UpdatedAt := 200, DeletedAt_Note := Some 200 \<rparr>],
                           caches_tbl := [cache1] \<rparr> \<rparr>"

text \<open>
  The process restarted after the first listing: the map is empty again, the cache row is
  still in its table. \<open>late_req\<close> carries a token issued to Alice at time 86000.
\<close>

definition app_restart :: App where
  "app_restart = \<lparr> notesCache = Map.empty, database = db1\<lparr> caches_tbl := [cache1] \<rparr> \<rparr>"

definition late_req :: "Note Request" where
  "late_req = \<lparr> Authorization = Prefixed (generateToken env1 86000 alice), Params_id = [],
                BodyParser = Some valid_body \<rparr>"

text \<open>Alice's account is gone from the users table; her note and her token remain.\<close>

definition app_gone :: App where
  "app_gone = \<lparr> notesCache = Map.empty, database = db1\<lparr> users_tbl := [bob] \<rparr> \<rparr>"

definition me_req :: "Note Request" where
  "me_req = \<lparr> Authorization = Bare (generateToken env1 50 alice), Params_id = [],
              BodyParser = None \<rparr>"

text \<open>A registration with a new username and Alice's email address.\<close>

definition carol_form :: User where
  "carol_form = \<lparr> ID = 0, CreatedAt = 0, UpdatedAt = 0, DeletedAt = None,
                  Username = ''carol'', Password = ''password789'', FirstName = ''C'',
                  LastName = ''R'', Email = ''a@x.com'', PhoneNumber = '''', City = '''',
                  Country = '''' \<rparr>"

definition register_req :: "User Request" where
  "register_req = \<lparr> Authorization = Empty, Params_id = [], BodyParser = Some carol_form \<rparr>"

text \<open>Two failing logins: a username nobody has, and Alice's username with a wrong password.\<close>

definition mallory_login :: User where
  "mallory_login = zero_User\<lparr> Username := ''mallory'', Password := ''password123'' \<rparr>"

definition alice_wrong_login :: User where
  "alice_wrong_login = zero_User\<lparr> Username := ''alice'', Password := ''letmein00'' \<rparr>"

definition unknown_login :: "User Request" where
  "unknown_login = \<lparr> Authorization = Empty, Params_id = [], BodyParser = Some mallory_login \<rparr>"

definition wrong_password_login :: "User Request" where
  "wrong_password_login =
     \<lparr> Authorization = Empty, Params_id = [], BodyParser = Some alice_wrong_login \<rparr>"

section \<open>Facts about the ORM layer\<close>

lemma first_by_id_None: "first_by_id xs = None \<longleftrightarrow> xs = []"
  by (cases xs) (auto split: option.splits)

lemma first_by_id_mem: "first_by_id xs = Some r \<Longrightarrow> r \<in> set xs"
  by (induction xs arbitrary: r) (auto split: option.splits if_splits)

lemma First_Inl: "First cond rows = Inl e \<longleftrightarrow> e = ErrRecordNotFound \<and> filter cond rows = []"
  by (auto simp: First_def first_by_id_None split: option.splits)

lemma First_Inr: "First cond rows = Inr r \<Longrightarrow> r \<in> set rows \<and> cond r"
  using first_by_id_mem[of "filter cond rows" r]
  by (auto simp: First_def split: option.splits)

lemma First_NotFound_iff:
  "First cond rows = Inl ErrRecordNotFound \<longleftrightarrow> \<not> (\<exists>r \<in> set rows. cond r)"
  by (auto simp: First_Inl filter_empty_conv)

lemma First_total:
  "First cond rows = Inl ErrRecordNotFound \<or> (\<exists>r. First cond rows = Inr r)"
  by (cases "First cond rows") (auto simp: First_Inl)

lemma first_by_id_map:
  assumes "\<And>r. ID (f r) = ID r"
  shows "first_by_id (map f rows) = map_option f (first_by_id rows)"
  by (induction rows) (auto simp: assms split: option.splits)

lemma row_of_Note_fields:
  "ID (row_of_Note n) = ID n" "CreatedAt (row_of_Note n) = CreatedAt n"
  "UpdatedAt (row_of_Note n) = UpdatedAt n" "UserID (row_of_Note n) = UserID n"
  "Title (row_of_Note n) = Title n" "Body (row_of_Note n) = Body n"
  "DeletedAt_Note (row_of_Note n) = DeletedAt_Note n"
  by (cases n, simp add: row_of_Note_def)+

lemma save_rows_mem:
  assumes "x \<in> set rows" and "key x = key r" and "deleted x = None"
  shows "r \<in> set (save_rows key deleted r rows)"
proof -
  have "list_ex (\<lambda>y. key y = key r \<and> deleted y = None) rows"
    using assms by (auto simp: list_ex_iff)
  then show ?thesis
    using assms by (auto simp: save_rows_def intro!: image_eqI[where x = x])
qed

text \<open>
  The delete that \<^verbatim>\<open>ClearNotesCache\<close> issues is always refused: the map is emptied, the
  cache table is left as it was.
\<close>

lemma ClearNotesCache_result:
  "ClearNotesCache now app = (Some ErrMissingWhereClause, app\<lparr> notesCache := Map.empty \<rparr>)"
  by (simp add: ClearNotesCache_def Delete_Cache_def zero_Cache_def)

section \<open>Facts about the routes\<close>

text \<open>Behind a validator that lets the request through, a route is its handler.\<close>

lemma notes_route_handlers:
  assumes "ValidateNote lib req = Next ()"
  shows "notes_route env lib now ''GET'' req app = getNotes env now req app"
    and "notes_route env lib now ''POST'' req app = createNote env lib now req app"
    and "notes_route env lib now ''PUT'' req app = updateNote env lib now req app"
    and "notes_route env lib now ''DELETE'' req app = deleteNote env now req app"
  using assms by (simp_all add: notes_route_def NotesHandler_def)

lemma register_route_handler:
  "ValidateUser lib req = Next () \<Longrightarrow> register_route lib now req app = Register lib now req app"
  by (simp add: register_route_def)

lemma login_route_handler:
  "ValidateLogin req = Next () \<Longrightarrow> login_route env lib now req app = Login env lib now req app"
  by (simp add: login_route_def)

section \<open>Facts about the concrete runs\<close>

lemma alice_token: "now < 86450 \<Longrightarrow> getUserIDFromToken env1 now alice_header = Inr 1"
  by (simp add: getUserIDFromToken_def alice_header_def generateToken_def jwt_Parse_def
      verifyExp_def TrimPrefix_Bearer_def secretKey_def env1_def alice_def Let_def)

lemma bob_token: "now < 86450 \<Longrightarrow> getUserIDFromToken env1 now bob_header = Inr 2"
  by (simp add: getUserIDFromToken_def bob_header_def generateToken_def jwt_Parse_def
      verifyExp_def TrimPrefix_Bearer_def secretKey_def env1_def bob_def Let_def)

lemma late_token:
  "now < 172400 \<Longrightarrow>
   getUserIDFromToken env1 now (Prefixed (generateToken env1 86000 alice)) = Inr 1"
  by (simp add: getUserIDFromToken_def generateToken_def jwt_Parse_def verifyExp_def
      TrimPrefix_Bearer_def secretKey_def env1_def alice_def Let_def)

lemma ParseUint32_1: "ParseUint32 ''1'' = Some 1"
  by (simp add: ParseUint32_def digit_of_def)

lemma valid_body_ok: "validate_Note lib1 valid_body"
  by (simp add: validate_Note_def validate_User_def valid_body_def alice_form_def lib1_def)

lemma requests_pass_ValidateNote:
  "ValidateNote lib1 list_req = Next ()" "ValidateNote lib1 update_req = Next ()"
  "ValidateNote lib1 delete_req = Next ()" "ValidateNote lib1 late_req = Next ()"
  "ValidateNote lib1 bob_list_req = Next ()" "ValidateNote lib1 bob_update_req = Next ()"
  "ValidateNote lib1 bob_delete_req = Next ()"
  by (simp_all add: ValidateNote_def list_req_def update_req_def delete_req_def late_req_def
      bob_list_req_def bob_update_req_def bob_delete_req_def valid_body_ok)






lemma load_after_restart:
  "LoadNotes 1 app_restart = (Inr [note1], app_restart\<lparr> notesCache := [1 \<mapsto> [note1]] \<rparr>)"
  by (simp add: LoadNotes_def app_restart_def db1_def query_caches_def First_def cache1_def)

section \<open>Cache coherence\<close>

text \<open>No note handler ever changes the cache table, whatever the request and the state.\<close>

lemma mutations_keep_cache_rows:
  "caches_tbl (database (snd (createNote env lib now req app))) = caches_tbl (database app)"
  "caches_tbl (database (snd (updateNote env lib now req app))) = caches_tbl (database app)"
  "caches_tbl (database (snd (deleteNote env now dreq app))) = caches_tbl (database app)"
  by (auto simp: createNote_def updateNote_def deleteNote_def Create_Note_def Save_Note_def
      ClearNotesCache_result Let_def
      split: option.splits sum.splits prod.splits if_splits gorm_error.splits)


section \<open>Token round trip\<close>

text \<open>
  What does hold of the two functions: the issued claims, acceptance when the two
  environment variables happen to hold the same value, and rejection of any signature that
  is not the one the verifier's key gives.
\<close>

lemma generateToken_claims:
  "\<exists>s. generateToken env now user
        = Compact \<lparr> user_id = Some (Num (int (ID user))), exp = Some (Num (int (now + 86400))) \<rparr> s"
  by (simp add: generateToken_def Let_def)

lemma round_trip_same_key:
  assumes "JWT_SECRET env = JWT_SECRET_KEY env" and "now' < now + 24 * 3600"
  shows "getUserIDFromToken env now' (Bare (generateToken env now user)) = Inr (int (ID user))"
  using assms
  by (simp add: getUserIDFromToken_def generateToken_def jwt_Parse_def verifyExp_def
      TrimPrefix_Bearer_def secretKey_def Let_def)

lemma foreign_signature_rejected:
  assumes "s \<noteq> HS256 (JWT_SECRET_KEY env) c"
  shows "getUserIDFromToken env now (Bare (Compact c s)) = Inl InvalidToken"
  using assms by (simp add: getUserIDFromToken_def jwt_Parse_def TrimPrefix_Bearer_def)

text \<open>
  C2. A token produced by \<^verbatim>\<open>generateToken\<close> is to be accepted, while unexpired, by
  \<^verbatim>\<open>getUserIDFromToken\<close> under the process-wide signing key, which returns the embedded
  user id. \<^verbatim>\<open>generateToken\<close> signs with \<^verbatim>\<open>JWT_SECRET\<close>, \<^verbatim>\<open>getUserIDFromToken\<close> verifies
  with \<^verbatim>\<open>JWT_SECRET_KEY\<close>: under the repository's own deployment a token issued one
  second earlier for user 1 is rejected as invalid, with or without the \<^verbatim>\<open>Bearer\<close>
  prefix.
\<close>

theorem C2_issued_token_rejected:
  "getUserIDFromToken compose_env 1001 (Bare (generateToken compose_env 1000 alice))
     = Inl InvalidToken
   \<and> getUserIDFromToken compose_env 1001 (Prefixed (generateToken compose_env 1000 alice))
     = Inl InvalidToken"
  by (simp add: getUserIDFromToken_def generateToken_def jwt_Parse_def verifyExp_def
      TrimPrefix_Bearer_def secretKey_def compose_env_def Let_def)

section \<open>Tokens of accounts that are gone\<close>

text \<open>
  \<^verbatim>\<open>AuthMiddleware\<close> does look the account up and answers 401 when it is gone; it guards
  \<^verbatim>\<open>/me\<close> only.
\<close>

lemma AuthMiddleware_account_gone:
  "AuthMiddleware env1 100 me_req app_gone = Respond (401, JSON_error ''User not found'')"
  by (simp add: AuthMiddleware_def me_req_def generateToken_def jwt_Parse_def verifyExp_def
      secretKey_def env1_def alice_def Let_def app_gone_def db1_def query_users_def First_def
      bob_def)

text \<open>The responses of the note handlers do not depend on the users table at all.\<close>

lemma queries_ignore_users:
  "query_notes (db\<lparr> users_tbl := us \<rparr>) = query_notes db"
  "query_caches (db\<lparr> users_tbl := us \<rparr>) = query_caches db"
  by (simp_all add: query_notes_def query_caches_def)

lemma note_handlers_ignore_users:
  "fst (getNotes env now req (app\<lparr> database := (database app)\<lparr> users_tbl := us \<rparr> \<rparr>))
   = fst (getNotes env now req app)"
  "fst (createNote env lib now nreq (app\<lparr> database := (database app)\<lparr> users_tbl := us \<rparr> \<rparr>))
   = fst (createNote env lib now nreq app)"
  "fst (updateNote env lib now nreq (app\<lparr> database := (database app)\<lparr> users_tbl := us \<rparr> \<rparr>))
   = fst (updateNote env lib now nreq app)"
  "fst (deleteNote env now req (app\<lparr> database := (database app)\<lparr> users_tbl := us \<rparr> \<rparr>))
   = fst (deleteNote env now req app)"
  by (auto simp: getNotes_def createNote_def updateNote_def deleteNote_def LoadNotes_def
      fetchUserNotes_def Find_def Create_Note_def Save_Note_def Let_def queries_ignore_users
      split: option.splits sum.splits prod.splits if_splits gorm_error.splits)

text \<open>
  C3. A note operation that carries a well-formed, correctly signed, unexpired token whose
  user id refers to an account that no longer exists is to fail with 401. The note
  handlers call \<^verbatim>\<open>getUserIDFromToken\<close> only and never read the users table: with Alice's
  row gone, her token still lists her note (200) and deletes it (204).
\<close>

theorem C3_deleted_account_still_served:
  "filter (\<lambda>u. ID u = 1) (users_tbl (database app_gone)) = []
   \<and> getUserIDFromToken env1 100 (Authorization list_req) = Inr 1
   \<and> fst (getNotes env1 100 list_req app_gone) = (200, JSON_notes [note1])
   \<and> fst (deleteNote env1 100 delete_req app_gone) = (204, NoBody)
   \<and> fst (notes_route env1 lib1 100 ''GET'' list_req app_gone) = (200, JSON_notes [note1])
   \<and> fst (notes_route env1 lib1 100 ''DELETE'' delete_req app_gone) = (204, NoBody)"
proof -
  have u: "filter (\<lambda>u. ID u = 1) (users_tbl (database app_gone)) = []"
    by (simp add: app_gone_def db1_def bob_def)
  have t: "getUserIDFromToken env1 100 (Authorization list_req) = Inr 1"
    by (simp add: list_req_def alice_token)
  have g: "fst (getNotes env1 100 list_req app_gone) = (200, JSON_notes [note1])"
    by (simp add: getNotes_def list_req_def alice_token LoadNotes_def app_gone_def db1_def
        query_caches_def query_notes_def First_def fetchUserNotes_def Find_def note1_def)
  have d: "fst (deleteNote env1 100 delete_req app_gone) = (204, NoBody)"
    by (simp add: deleteNote_def delete_req_def alice_token ParseUint32_1 app_gone_def db1_def
        query_notes_def First_def note1_def Save_Note_def Let_def)
  show ?thesis
    using u t g d
    by (simp add: notes_route_handlers[OF requests_pass_ValidateNote(1)]
        notes_route_handlers[OF requests_pass_ValidateNote(3)])
qed

section \<open>The ownership check of update and delete\<close>

lemma owned_query:
  "(\<exists>r \<in> set (query_notes db). ID r = noteID \<and> UserID r = userID)
   \<longleftrightarrow> (\<exists>n \<in> set (notes_tbl db). ID n = noteID \<and> UserID n = userID \<and> DeletedAt_Note n = None)"
  by (auto simp: query_notes_def)

lemma updateNote_404:
  assumes "ParseUint32 (Params_id req) = Some noteID"
    and "BodyParser req = Some note"
    and "validate_Note lib note"
    and "getUserIDFromToken env now (Authorization req) = Inr userID"
  shows "updateNote env lib now req app = ((404, SendString ''Note not found''), app)
         \<longleftrightarrow> First (\<lambda>n. ID n = noteID \<and> UserID n = userID) (query_notes (database app))
               = Inl ErrRecordNotFound"
    and "fst (fst (updateNote env lib now req app)) = 404
         \<longleftrightarrow> First (\<lambda>n. ID n = noteID \<and> UserID n = userID) (query_notes (database app))
               = Inl ErrRecordNotFound"
  using assms
    First_total[of "\<lambda>n. ID n = noteID \<and> UserID n = userID" "query_notes (database app)"]
  by (auto simp: updateNote_def Save_Note_def Create_Note_def Let_def
      split: sum.splits prod.splits if_splits)

lemma deleteNote_404:
  assumes "ParseUint32 (Params_id req) = Some noteID"
    and "getUserIDFromToken env now (Authorization req) = Inr userID"
  shows "deleteNote env now req app = ((404, SendString ''Note not found''), app)
         \<longleftrightarrow> First (\<lambda>n. ID n = noteID \<and> UserID n = userID) (query_notes (database app))
               = Inl ErrRecordNotFound"
    and "fst (fst (deleteNote env now req app)) = 404
         \<longleftrightarrow> First (\<lambda>n. ID n = noteID \<and> UserID n = userID) (query_notes (database app))
               = Inl ErrRecordNotFound"
  using assms
    First_total[of "\<lambda>n. ID n = noteID \<and> UserID n = userID" "query_notes (database app)"]
  by (auto simp: deleteNote_def Save_Note_def Create_Note_def Let_def
      split: sum.splits prod.splits if_splits)

text \<open>
  C4. For a request that reaches the ownership check (the id parses, the body is valid,
  the token yields \<open>userID\<close>), update and delete answer 404 exactly when the notes table
  has no row with that id, that owner and an unset soft-delete timestamp; and every 404
  is the same response, which leaves the state as it was. A missing id, another user's
  note and a soft-deleted note are therefore told apart by nothing.
\<close>

theorem C4_not_found_iff_no_active_owned_note:
  assumes "ParseUint32 (Params_id req) = Some noteID"
    and "BodyParser req = Some note"
    and "validate_Note lib note"
    and "getUserIDFromToken env now (Authorization req) = Inr userID"
    and "ParseUint32 (Params_id dreq) = Some noteID"
    and "getUserIDFromToken env now (Authorization dreq) = Inr userID"
  shows "(fst (fst (updateNote env lib now req app)) = 404
           \<longleftrightarrow> \<not> (\<exists>n \<in> set (notes_tbl (database app)).
                     ID n = noteID \<and> UserID n = userID \<and> DeletedAt_Note n = None))
       \<and> (updateNote env lib now req app = ((404, SendString ''Note not found''), app)
           \<longleftrightarrow> \<not> (\<exists>n \<in> set (notes_tbl (database app)).
                     ID n = noteID \<and> UserID n = userID \<and> DeletedAt_Note n = None))
       \<and> (fst (fst (deleteNote env now dreq app)) = 404
           \<longleftrightarrow> \<not> (\<exists>n \<in> set (notes_tbl (database app)).
                     ID n = noteID \<and> UserID n = userID \<and> DeletedAt_Note n = None))
       \<and> (deleteNote env now dreq app = ((404, SendString ''Note not found''), app)
           \<longleftrightarrow> \<not> (\<exists>n \<in> set (notes_tbl (database app)).
                     ID n = noteID \<and> UserID n = userID \<and> DeletedAt_Note n = None))"
  using updateNote_404[OF assms(1-4), of app] deleteNote_404[OF assms(5,6), of app]
  by (simp only: First_NotFound_iff owned_query)

text \<open>
  The theorem at work on note 1, which is Alice's: her own update and delete pass the
  check; Bob's give 404; and once the note is soft-deleted (\<open>app3\<close>) hers give 404 too.
\<close>

theorem C4_witness:
  "fst (fst (updateNote env1 lib1 500 update_req app1)) \<noteq> 404
   \<and> fst (fst (deleteNote env1 500 delete_req app1)) \<noteq> 404
   \<and> updateNote env1 lib1 500 bob_update_req app1 = ((404, SendString ''Note not found''), app1)
   \<and> deleteNote env1 500 bob_delete_req app1 = ((404, SendString ''Note not found''), app1)
   \<and> updateNote env1 lib1 500 update_req app3 = ((404, SendString ''Note not found''), app3)
   \<and> deleteNote env1 500 delete_req app3 = ((404, SendString ''Note not found''), app3)"
proof -
  have p: "ParseUint32 (Params_id update_req) = Some 1"
    "ParseUint32 (Params_id delete_req) = Some 1"
    "ParseUint32 (Params_id bob_update_req) = Some 1"
    "ParseUint32 (Params_id bob_delete_req) = Some 1"
    by (simp_all add: update_req_def delete_req_def bob_update_req_def bob_delete_req_def
        ParseUint32_1)
  have b: "BodyParser update_req = Some valid_body"
    "BodyParser bob_update_req = Some valid_body"
    by (simp_all add: update_req_def bob_update_req_def)
  have a: "getUserIDFromToken env1 500 (Authorization update_req) = Inr 1"
    "getUserIDFromToken env1 500 (Authorization delete_req) = Inr 1"
    by (simp_all add: update_req_def delete_req_def alice_token)
  have c: "getUserIDFromToken env1 500 (Authorization bob_update_req) = Inr 2"
    "getUserIDFromToken env1 500 (Authorization bob_delete_req) = Inr 2"
    by (simp_all add: bob_update_req_def bob_delete_req_def bob_token)
  show ?thesis
    using C4_not_found_iff_no_active_owned_note
        [OF p(1) b(1) valid_body_ok a(1) p(2) a(2), of app1]
      C4_not_found_iff_no_active_owned_note
        [OF p(3) b(2) valid_body_ok c(1) p(4) c(2), of app1]
      C4_not_found_iff_no_active_owned_note
        [OF p(1) b(1) valid_body_ok a(1) p(2) a(2), of app3]
    by (simp add: app1_def app3_def db1_def note1_def)
qed

section \<open>What an update writes\<close>

text \<open>
  In general: an update that passes the ownership check answers 200 with the request's
  struct and leaves that struct as the row, so the row's created timestamp and delete-state
  are the request's, not the old row's.
\<close>

lemma updateNote_saves_request_struct:
  assumes "ParseUint32 (Params_id req) = Some noteID"
    and "BodyParser req = Some note"
    and "validate_Note lib note"
    and "getUserIDFromToken env now (Authorization req) = Inr userID"
    and "First (\<lambda>n. ID n = noteID \<and> UserID n = userID) (query_notes (database app))
         = Inr existingNote"
    and "noteID \<noteq> 0"
  shows "fst (updateNote env lib now req app)
           = (200, JSON_note (note\<lparr> ID := noteID, UserID := userID, UpdatedAt := now \<rparr>))
       \<and> row_of_Note (note\<lparr> ID := noteID, UserID := userID, UpdatedAt := now \<rparr>)
           \<in> set (notes_tbl (database (snd (updateNote env lib now req app))))"
proof -
  let ?n = "note\<lparr> ID := noteID, UserID := userID, UpdatedAt := now \<rparr>"
  have e: "existingNote \<in> set (notes_tbl (database app))" "DeletedAt_Note existingNote = None"
    "ID existingNote = noteID"
    using First_Inr[OF assms(5)] by (simp_all add: query_notes_def)
  have "row_of_Note ?n
        \<in> set (save_rows ID DeletedAt_Note (row_of_Note ?n) (notes_tbl (database app)))"
  proof (rule save_rows_mem[OF e(1)])
    show "ID existingNote = ID (row_of_Note ?n)" by (simp add: row_of_Note_fields e(3))
    show "DeletedAt_Note existingNote = None" by (rule e(2))
  qed
  then show ?thesis
    using assms by (simp add: updateNote_def Save_Note_def ClearNotesCache_result Let_def)
qed

lemma updateNote_stored_created_timestamp:
  assumes "ParseUint32 (Params_id req) = Some noteID"
    and "BodyParser req = Some note"
    and "validate_Note lib note"
    and "getUserIDFromToken env now (Authorization req) = Inr userID"
    and "First (\<lambda>n. ID n = noteID \<and> UserID n = userID) (query_notes (database app))
         = Inr existingNote"
    and "noteID \<noteq> 0"
  shows "\<exists>r \<in> set (notes_tbl (database (snd (updateNote env lib now req app)))).
           ID r = noteID \<and> CreatedAt r = CreatedAt note
           \<and> DeletedAt_Note r = DeletedAt_Note note"
  using updateNote_saves_request_struct[OF assms]
  by (auto intro!: bexI[where x = "row_of_Note (note\<lparr> ID := noteID, UserID := userID,
                                                   UpdatedAt := now \<rparr>)"]
      simp: row_of_Note_fields)

text \<open>
  C5. A successful update is to overwrite title and body, refresh the updated timestamp,
  and preserve id, owner, created timestamp and delete-state. \<^verbatim>\<open>updateNote\<close> fetches the
  existing row for the check only and saves the struct parsed from the request: Alice's
  update of note 1 answers 200, and the row's created timestamp, 20 before, is the
  request's zero afterwards.
\<close>

theorem C5_update_overwrites_created_timestamp:
  "fst (fst (updateNote env1 lib1 500 update_req app1)) = 200
   \<and> notes_route env1 lib1 500 ''PUT'' update_req app1 = updateNote env1 lib1 500 update_req app1
   \<and> map CreatedAt (notes_tbl (database app1)) = [20]
   \<and> map CreatedAt (notes_tbl (database (snd (updateNote env1 lib1 500 update_req app1)))) = [0]"
proof -
  have r: "notes_route env1 lib1 500 ''PUT'' update_req app1
           = updateNote env1 lib1 500 update_req app1"
    by (rule notes_route_handlers(3)[OF requests_pass_ValidateNote(2)])
  have h: "fst (fst (updateNote env1 lib1 500 update_req app1)) = 200
     \<and> map CreatedAt (notes_tbl (database app1)) = [20]
     \<and> map CreatedAt (notes_tbl (database (snd (updateNote env1 lib1 500 update_req app1))))
       = [0]"
    by (simp add: updateNote_def update_req_def ParseUint32_1
        valid_body_ok[unfolded valid_body_def] alice_token app1_def db1_def query_notes_def
        First_def note1_def Save_Note_def save_rows_def row_of_Note_def ClearNotesCache_result
        valid_body_def Let_def)
  show ?thesis using r h by simp
qed

section \<open>Expiry of cache rows\<close>

text \<open>In general: what the cache read returns does not depend on any row's expiry.\<close>

lemma LoadNotes_ignores_expiry:
  "fst (LoadNotes uid (app\<lparr> database := (database app)\<lparr> caches_tbl :=
          map (\<lambda>c. c\<lparr> ExpiryDate := e \<rparr>) (caches_tbl (database app)) \<rparr> \<rparr>))
   = fst (LoadNotes uid app)"
proof -
  let ?f = "\<lambda>c::Cache. c\<lparr> ExpiryDate := e \<rparr>"
  have "filter (\<lambda>c. Cache_UserID c = uid)
          (filter (\<lambda>c. DeletedAt c = None) (map ?f (caches_tbl (database app))))
        = map ?f (filter (\<lambda>c. Cache_UserID c = uid)
                   (filter (\<lambda>c. DeletedAt c = None) (caches_tbl (database app))))"
    by (simp add: filter_map comp_def)
  then show ?thesis
    by (simp add: LoadNotes_def First_def query_caches_def first_by_id_map
        split: option.splits)
qed

text \<open>
  C6. When the map misses and the user's cache row exists but its expiry has passed, the
  cache read is to signal a miss. \<^verbatim>\<open>LoadNotes\<close> never reads \<^verbatim>\<open>ExpiryDate\<close>: after a
  restart the map is empty, the row written at time 100 expires at 86500, and at time
  90000 the read returns the row's notes, the listing serves them and writes nothing.
\<close>

theorem C6_expired_row_is_served:
  "notesCache app_restart 1 = None
   \<and> query_caches (database app_restart) = [cache1] \<and> ExpiryDate cache1 = 86500
   \<and> fst (LoadNotes 1 app_restart) = Inr [note1]
   \<and> fst (getNotes env1 90000 late_req app_restart) = (200, JSON_notes [note1])
   \<and> database (snd (getNotes env1 90000 late_req app_restart)) = database app_restart
   \<and> notes_route env1 lib1 90000 ''GET'' late_req app_restart
     = getNotes env1 90000 late_req app_restart"
proof -
  have r: "notes_route env1 lib1 90000 ''GET'' late_req app_restart
           = getNotes env1 90000 late_req app_restart"
    by (rule notes_route_handlers(1)[OF requests_pass_ValidateNote(4)])
  have h: "notesCache app_restart 1 = None
     \<and> query_caches (database app_restart) = [cache1] \<and> ExpiryDate cache1 = 86500
     \<and> fst (LoadNotes 1 app_restart) = Inr [note1]
     \<and> fst (getNotes env1 90000 late_req app_restart) = (200, JSON_notes [note1])
     \<and> database (snd (getNotes env1 90000 late_req app_restart)) = database app_restart"
    by (simp add: getNotes_def late_req_def late_token load_after_restart)
       (simp add: app_restart_def db1_def query_caches_def cache1_def)
  show ?thesis using r h by simp
qed

section \<open>Creating a note\<close>

text \<open>In general: a body without an owner id never gets past the validation.\<close>

lemma createNote_zero_owner:
  assumes "BodyParser req = Some note" and "UserID note = 0"
  shows "createNote env lib now req app = ((400, SendString ''Validation failed''), app)"
  using assms by (simp add: createNote_def validate_Note_def)

text \<open>
  C7. An authenticated \<^verbatim>\<open>POST /notes\<close> with non-empty title and body is to succeed with
  201 whatever the client says about the owner, an absent owner included.
  \<^verbatim>\<open>createNote\<close> validates the parsed struct, whose \<^verbatim>\<open>UserID\<close> is tagged
  \<^verbatim>\<open>required\<close>, before it assigns the owner from the token: the README's own example
  body, sent with Alice's valid token, is answered 400 and nothing is stored. On the
  route the validator in front gives the same status.
\<close>

theorem C7_absent_owner_fails_validation:
  "getUserIDFromToken env1 100 (Authorization create_req) = Inr 1
   \<and> Title readme_body \<noteq> [] \<and> Body readme_body \<noteq> []
   \<and> createNote env1 lib1 100 create_req app1 = ((400, SendString ''Validation failed''), app1)
   \<and> notes_route env1 lib1 100 ''POST'' create_req app1
     = ((400, JSON_error_Validation_failed), app1)"
  by (simp add: createNote_def notes_route_def ValidateNote_def create_req_def alice_token
      validate_Note_def readme_body_def)

section \<open>Registration\<close>

text \<open>
  In general: a valid candidate whose username no live user has and whose email some row
  has is answered 500; a username that a live user has is answered 400.
\<close>

lemma Register_duplicate_email:
  assumes "BodyParser req = Some user" and "validate_User lib user"
    and "First (\<lambda>u. Username u = Username user) (query_users (database app))
         = Inl ErrRecordNotFound"
    and "hashPassword lib (Password user) = Some h"
    and "Email user \<in> set (map Email (users_tbl (database app)))"
  shows "Register lib now req app = ((500, SendString ''Unable to register user''), app)"
  using assms by (simp add: Register_def Create_User_def)

lemma Register_duplicate_username:
  assumes "BodyParser req = Some user" and "validate_User lib user"
    and "First (\<lambda>u. Username u = Username user) (query_users (database app)) = Inr existingUser"
  shows "Register lib now req app = ((400, SendString ''Username already exists''), app)"
  using assms by (simp add: Register_def)

text \<open>
  C8. Registration is to fail with the conflict status (400 or 409) when the username or
  the email already exists. \<^verbatim>\<open>Register\<close> looks for the username only: a valid candidate
  with a new username and Alice's email runs into the unique index on insert and is
  answered 500.
\<close>

theorem C8_duplicate_email_is_a_storage_error:
  "validate_User lib1 carol_form
   \<and> filter (\<lambda>u. Username u = Username carol_form) (users_tbl (database app1)) = []
   \<and> filter (\<lambda>u. Email u = Email carol_form) (users_tbl (database app1)) = [alice]
   \<and> Register lib1 100 register_req app1 = ((500, SendString ''Unable to register user''), app1)
   \<and> register_route lib1 100 register_req app1
     = ((500, SendString ''Unable to register user''), app1)"
  by (simp add: register_route_def ValidateUser_def Register_def register_req_def
      validate_User_def carol_form_def lib1_def app1_def db1_def query_users_def First_def
      alice_def bob_def hashPassword_def Create_User_def)

section \<open>Login failures\<close>

text \<open>
  C9. A login that fails because nobody has the username and a login that fails because
  the hash comparison fails get the same response, 401 with the same message, whatever
  the environment, the clock and the rest of the two requests; neither changes the state.
\<close>

theorem C9_login_failures_indistinguishable:
  assumes "BodyParser ra = Some da"
    and "Username da \<notin> set (map Username (query_users (database sa)))"
    and "BodyParser rb = Some db"
    and "First (\<lambda>u. Username u = Username db) (query_users (database sb)) = Inr u"
    and "\<not> CompareHashAndPassword lb (Password u) (Password db)"
  shows "Login ea la ta ra sa = ((401, JSON_error ''Invalid username or password''), sa)
       \<and> Login eb lb tb rb sb = ((401, JSON_error ''Invalid username or password''), sb)"
proof -
  have "\<not> (\<exists>r \<in> set (query_users (database sa)). Username r = Username da)"
  proof (rule notI)
    assume "\<exists>r \<in> set (query_users (database sa)). Username r = Username da"
    then obtain r where "r \<in> set (query_users (database sa))" and "Username r = Username da"
      by blast
    then have "Username da \<in> set (map Username (query_users (database sa)))"
      by (metis image_eqI set_map)
    with assms(2) show False by simp
  qed
  then have "First (\<lambda>u. Username u = Username da) (query_users (database sa))
             = Inl ErrRecordNotFound"
    using First_NotFound_iff[of "\<lambda>u. Username u = Username da" "query_users (database sa)"]
    by blast
  then have a: "Login ea la ta ra sa = ((401, JSON_error ''Invalid username or password''), sa)"
    using assms(1) by (simp add: Login_def)
  have b: "Login eb lb tb rb sb = ((401, JSON_error ''Invalid username or password''), sb)"
    using assms(3-5) by (simp add: Login_def)
  from a b show ?thesis by simp
qed

text \<open>
  The theorem on an unknown username and on Alice's username with a wrong password; both
  requests get past \<^verbatim>\<open>ValidateLogin\<close>, so the route gives the same two responses.
\<close>

theorem C9_witness:
  "fst (Login env1 lib1 100 unknown_login app1)
     = fst (Login env1 lib1 100 wrong_password_login app1)
   \<and> fst (Login env1 lib1 100 unknown_login app1)
     = (401, JSON_error ''Invalid username or password'')
   \<and> login_route env1 lib1 100 unknown_login app1 = Login env1 lib1 100 unknown_login app1
   \<and> login_route env1 lib1 100 wrong_password_login app1
     = Login env1 lib1 100 wrong_password_login app1"
proof -
  have 1: "BodyParser unknown_login = Some mallory_login"
    by (simp add: unknown_login_def)
  have 2: "Username mallory_login \<notin> set (map Username (query_users (database app1)))"
    by (simp add: mallory_login_def app1_def db1_def query_users_def alice_def bob_def)
  have 3: "BodyParser wrong_password_login = Some alice_wrong_login"
    by (simp add: wrong_password_login_def)
  have 4: "First (\<lambda>u. Username u = Username alice_wrong_login) (query_users (database app1))
           = Inr alice"
    by (simp add: alice_wrong_login_def app1_def db1_def query_users_def alice_def bob_def
        First_def)
  have 5: "\<not> CompareHashAndPassword lib1 (Password alice) (Password alice_wrong_login)"
    by (simp add: lib1_def alice_def alice_wrong_login_def)
  have 6: "ValidateLogin unknown_login = Next ()" "ValidateLogin wrong_password_login = Next ()"
    by (simp_all add: ValidateLogin_def unknown_login_def wrong_password_login_def
        mallory_login_def alice_wrong_login_def)
  show ?thesis
    using C9_login_failures_indistinguishable [OF 1 2 3 4 5, of env1 lib1 100 env1 100]
    by (simp add: login_route_handler[OF 6(1)] login_route_handler[OF 6(2)])
qed

section \<open>Empty lists and the cache\<close>







end
